theory Spec2Isabelle
  imports Complex_Main "HOL-Library.Sublist" "HOL-Library.Multiset"
begin

section \<open>Python strings\<close>

text \<open>
  A Python \<open>str\<close> is a sequence of code points. The model reads a \<^typ>\<open>char\<close> as one
  code point below 256 (Latin-1), which covers every literal of the sources: \<open>length\<close>
  counts code points, and the letter e-acute of the location tables is the single
  character \<open>CHR 0xE9\<close>.
\<close>

definition upper_chars :: string where
  "upper_chars = ''ABCDEFGHIJKLMNOPQRSTUVWXYZ'' @
     [CHR 0xC0, CHR 0xC1, CHR 0xC2, CHR 0xC3, CHR 0xC4, CHR 0xC5, CHR 0xC6, CHR 0xC7,
      CHR 0xC8, CHR 0xC9, CHR 0xCA, CHR 0xCB, CHR 0xCC, CHR 0xCD, CHR 0xCE, CHR 0xCF,
      CHR 0xD0, CHR 0xD1, CHR 0xD2, CHR 0xD3, CHR 0xD4, CHR 0xD5, CHR 0xD6,
      CHR 0xD8, CHR 0xD9, CHR 0xDA, CHR 0xDB, CHR 0xDC, CHR 0xDD, CHR 0xDE]"

definition lower_chars :: string where
  "lower_chars = ''abcdefghijklmnopqrstuvwxyz'' @
     [CHR 0xE0, CHR 0xE1, CHR 0xE2, CHR 0xE3, CHR 0xE4, CHR 0xE5, CHR 0xE6, CHR 0xE7,
      CHR 0xE8, CHR 0xE9, CHR 0xEA, CHR 0xEB, CHR 0xEC, CHR 0xED, CHR 0xEE, CHR 0xEF,
      CHR 0xF0, CHR 0xF1, CHR 0xF2, CHR 0xF3, CHR 0xF4, CHR 0xF5, CHR 0xF6,
      CHR 0xF8, CHR 0xF9, CHR 0xFA, CHR 0xFB, CHR 0xFC, CHR 0xFD, CHR 0xFE]"

text \<open>\<open>str.lower\<close>, one code point at a time: the upper-case letters of ASCII and of
  Latin-1 move to their lower-case partners, every other character stays.\<close>

definition lower_char :: "char \<Rightarrow> char" where
  "lower_char c = (case map_of (zip upper_chars lower_chars) c of Some l \<Rightarrow> l | None \<Rightarrow> c)"

definition py_lower :: "string \<Rightarrow> string" where
  "py_lower s = map lower_char s"

text \<open>\<open>str.isspace\<close> on one character: the white space \<open>strip\<close> and \<open>split\<close> remove.\<close>

definition is_space :: "char \<Rightarrow> bool" where
  "is_space c = (c \<in> set [CHR 0x09, CHR 0x0A, CHR 0x0B, CHR 0x0C, CHR 0x0D,
                            CHR 0x1C, CHR 0x1D, CHR 0x1E, CHR 0x1F, CHR 0x20,
                            CHR 0x85, CHR 0xA0])"

definition py_strip :: "string \<Rightarrow> string" where
  "py_strip s = rev (dropWhile is_space (rev (dropWhile is_space s)))"

text \<open>\<open>str.split()\<close> with no argument: the maximal runs of characters that are not
  white space, in order.\<close>

function py_split :: "string \<Rightarrow> string list" where
  "py_split s =
     (case dropWhile is_space s of
        [] \<Rightarrow> []
      | c # cs \<Rightarrow> takeWhile (\<lambda>x. \<not> is_space x) (c # cs)
                 # py_split (dropWhile (\<lambda>x. \<not> is_space x) cs))"
  by pat_completeness auto
termination
proof (relation "measure length")
  show "wf (measure length)" by simp
next
  fix s :: string and c cs
  assume "dropWhile is_space s = c # cs"
  then have "length (c # cs) \<le> length s"
    by (metis length_dropWhile_le)
  moreover have "length (dropWhile (\<lambda>x. \<not> is_space x) cs) \<le> length cs"
    by (rule length_dropWhile_le)
  ultimately show "(dropWhile (\<lambda>x. \<not> is_space x) cs, s) \<in> measure length"
    by simp
qed

declare py_split.simps [simp del]

text \<open>The substring test \<open>k in s\<close>.\<close>

fun str_in :: "string \<Rightarrow> string \<Rightarrow> bool" where
  "str_in k [] = (k = [])"
| "str_in k (c # cs) = (prefix k (c # cs) \<or> str_in k cs)"

text \<open>\<open>sum(1 for w in ws if p(w))\<close>.\<close>

definition count_if :: "('a \<Rightarrow> bool) \<Rightarrow> 'a list \<Rightarrow> nat" where
  "count_if p ws = length (filter p ws)"

section \<open>Language detector (dashboard/utils.py)\<close>

definition french_indicators :: "(string \<times> string list) list" where
  "french_indicators =
     [(''articles'', [''le'', ''la'', ''les'', ''un'', ''une'', ''des'', ''du'', ''de'']),
      (''prepositions'', [''dans'', ''pour'', ''avec'', ''sur'', ''sous'', ''par'', ''sans'']),
      (''conjunctions'', [''et'', ''ou'', ''mais'', ''donc'', ''car'', ''ni'']),
      (''common_words'', [''est'', ''sont'', ''avoir'', CHR 0xEA # ''tre'', ''faire'', ''aller'',
                          ''voir'']),
      (''pronouns'', [''je'', ''tu'', ''il'', ''elle'', ''nous'', ''vous'', ''ils'', ''elles''])]"

definition english_indicators :: "(string \<times> string list) list" where
  "english_indicators =
     [(''articles'', [''the'', ''a'', ''an'']),
      (''prepositions'', [''in'', ''on'', ''at'', ''for'', ''with'', ''by'', ''from'', ''to'',
                          ''of'']),
      (''conjunctions'', [''and'', ''or'', ''but'', ''so'', ''yet'', ''nor'']),
      (''common_words'', [''is'', ''are'', ''have'', ''has'', ''will'', ''would'', ''could'',
                          ''should'']),
      (''pronouns'', [''i'', ''you'', ''he'', ''she'', ''we'', ''they'', ''it'', ''this'',
                      ''that''])]"

text \<open>The scoring loop: for each category in turn, add the number of words of the text
  that occur in the category's list.\<close>

fun indicator_score :: "(string \<times> string list) list \<Rightarrow> string list \<Rightarrow> nat" where
  "indicator_score [] ws = 0"
| "indicator_score ((category, indicators) # rest) ws =
     count_if (\<lambda>w. w \<in> set indicators) ws + indicator_score rest ws"

text \<open>The comparison \<open>french_score > english_score * 1.5\<close> is between an integer and
  a float that is exact for every count a text can reach; it is taken over the rationals.\<close>

definition detect_language :: "string \<Rightarrow> string" where
  "detect_language text =
     (if text = [] \<or> length (py_strip text) < 10 then ''auto''
      else let text_lower = py_strip (py_lower text);
               ws = py_split text_lower
           in if length ws < 5 then ''auto''
              else let french_score = indicator_score french_indicators ws;
                       english_score = indicator_score english_indicators ws
                   in if (of_nat french_score :: rat) > of_nat english_score * 1.5 then ''fr''
                      else if english_score > french_score then ''en''
                      else ''auto'')"

definition english_words :: "string list" where
  "english_words = concat (map snd english_indicators)"

definition french_words :: "string list" where
  "french_words = concat (map snd french_indicators)"

section \<open>Location gazetteer (dashboard/utils.py)\<close>

text \<open>Coordinates are float literals that are only stored and compared, never computed
  with; each is the rational its decimal literal denotes.\<close>

record coords =
  latitude :: rat
  longitude :: rat

definition pt :: "rat \<Rightarrow> rat \<Rightarrow> coords" where
  "pt la lo = \<lparr>latitude = la, longitude = lo\<rparr>"

text \<open>The dict literal \<open>location_database\<close>, in insertion order, which is the order
  \<open>items()\<close> iterates in.\<close>

definition location_database :: "(string \<times> coords) list" where
  "location_database =
     [(''yaound'' @ [CHR 0xE9], pt 3.8480 11.5021),
      (''yaounde'', pt 3.8480 11.5021),
      (''douala'', pt 4.0511 9.7679),
      (''bamenda'', pt 5.9631 10.1591),
      (''bafoussam'', pt 5.4781 10.4167),
      (''garoua'', pt 9.3265 13.3971),
      (''maroua'', pt 10.5969 14.3197),
      (''ngaound'' @ [CHR 0xE9] @ ''r'' @ [CHR 0xE9], pt 7.3167 13.5833),
      (''ngaoundere'', pt 7.3167 13.5833),
      (''bertoua'', pt 4.5777 13.6836),
      (''buea'', pt 4.1559 9.2928),
      (''limbe'', pt 4.0186 9.2105),
      (''kumba'', pt 4.6371 9.4469),
      (''edea'', pt 3.7969 10.1350),
      (''loum'', pt 4.7181 9.7336),
      (''nkongsamba'', pt 4.9547 9.9386),
      (''foumban'', pt 5.7269 10.9004),
      (''tiko'', pt 4.0719 9.3606),
      (''kribi'', pt 2.9394 9.9078),
      (''sangmelima'', pt 2.9294 11.9981),
      (''ebolowa'', pt 2.9156 11.1544),
      (''mbalmayo'', pt 3.5186 11.5036),
      (''akonolinga'', pt 3.7731 12.2506),
      (''adamawa'', pt 7.3167 13.5833),
      (''centre'', pt 3.8480 11.5021),
      (''east'', pt 4.5777 13.6836),
      (''far north'', pt 10.5969 14.3197),
      (''littoral'', pt 4.0511 9.7679),
      (''north'', pt 9.3265 13.3971),
      (''northwest'', pt 5.9631 10.1591),
      (''north-west'', pt 5.9631 10.1591),
      (''south'', pt 2.9156 11.1544),
      (''southwest'', pt 4.1559 9.2928),
      (''south-west'', pt 4.1559 9.2928),
      (''west'', pt 5.4781 10.4167),
      (''extr'' @ [CHR 0xEA] @ ''me-nord'', pt 10.5969 14.3197),
      (''nord-ouest'', pt 5.9631 10.1591),
      (''sud-ouest'', pt 4.1559 9.2928),
      (''cameroon'', pt 3.8480 11.5021),
      (''cameroun'', pt 3.8480 11.5021),
      (''nigeria'', pt 9.0820 8.6753),
      (''chad'', pt 15.4542 18.7322),
      (''tchad'', pt 15.4542 18.7322),
      (''central african republic'', pt 6.6111 20.9394),
      (''equatorial guinea'', pt 1.6508 10.2679),
      (''gabon'', pt (- 0.8037) 11.6094)]"

text \<open>The test of the partial-matching loop on one table key.\<close>

definition partial_hit :: "string \<Rightarrow> string \<Rightarrow> bool" where
  "partial_hit location_key key = (str_in key location_key \<or> str_in location_key key)"

text \<open>The loop \<open>for key, coords in location_database.items()\<close>: it returns at the first
  key that passes the test; when it runs out, the function logs the name and returns
  \<open>None\<close>.\<close>

fun partial_match :: "(string \<times> coords) list \<Rightarrow> string \<Rightarrow> coords option" where
  "partial_match [] location_key = None"
| "partial_match ((key, c) # rest) location_key =
     (if partial_hit location_key key then Some c else partial_match rest location_key)"

definition geocode_in :: "(string \<times> coords) list \<Rightarrow> string \<Rightarrow> coords option" where
  "geocode_in table location_name =
     (let location_key = py_strip (py_lower location_name)
      in case map_of table location_key of
           Some c \<Rightarrow> Some c
         | None \<Rightarrow> partial_match table location_key)"

definition geocode_location :: "string \<Rightarrow> coords option" where
  "geocode_location location_name = geocode_in location_database location_name"

section \<open>JSON values and Python errors\<close>

text \<open>What \<open>response.json()\<close> returns and what the \<open>JSONField\<close> holds. A dict is the
  list of its items in insertion order, each key once.\<close>

datatype json =
    JNull
  | JBool bool
  | JInt int
  | JFloat rat
  | JStr string
  | JList "json list"
  | JDict "(string \<times> json) list"

type_synonym dict = "(string \<times> json) list"

text \<open>\<open>d.get(k, default)\<close> and \<open>d[k] = v\<close>.\<close>

definition dict_get :: "dict \<Rightarrow> string \<Rightarrow> json \<Rightarrow> json" where
  "dict_get d k dflt = (case map_of d k of Some v \<Rightarrow> v | None \<Rightarrow> dflt)"

fun dict_set :: "dict \<Rightarrow> string \<Rightarrow> json \<Rightarrow> dict" where
  "dict_set [] k v = [(k, v)]"
| "dict_set ((k', v') # d) k v = (if k' = k then (k, v) # d else (k', v') # dict_set d k v)"

datatype py_error = TypeError string | AttributeError string | KeyError string

text \<open>\<open>str(e)\<close>: the message, and for a \<open>KeyError\<close> the repr of the missing key.\<close>

definition quoted :: "string \<Rightarrow> string" where
  "quoted s = [CHR 0x27] @ s @ [CHR 0x27]"

fun error_str :: "py_error \<Rightarrow> string" where
  "error_str (TypeError m) = m"
| "error_str (AttributeError m) = m"
| "error_str (KeyError k) = quoted k"

fun type_name :: "json \<Rightarrow> string" where
  "type_name JNull = ''NoneType''"
| "type_name (JBool b) = ''bool''"
| "type_name (JInt i) = ''int''"
| "type_name (JFloat r) = ''float''"
| "type_name (JStr s) = ''str''"
| "type_name (JList xs) = ''list''"
| "type_name (JDict d) = ''dict''"

definition no_attribute :: "json \<Rightarrow> string \<Rightarrow> py_error" where
  "no_attribute v attr =
     AttributeError (quoted (type_name v) @ '' object has no attribute '' @ quoted attr)"

definition not_iterable :: "json \<Rightarrow> py_error" where
  "not_iterable v = TypeError (quoted (type_name v) @ '' object is not iterable'')"

section \<open>Priority classifier (dashboard/utils.py)\<close>

definition critical_keywords :: "string list" where
  "critical_keywords =
     [''attack'', ''bomb'', ''explosion'', ''terrorist'', ''boko haram'',
      ''ambush'', ''kidnap'', ''hostage'', ''emergency'', ''crisis'']"

definition high_priority_keywords :: "string list" where
  "high_priority_keywords =
     [''military'', ''army'', ''security'', ''police'', ''operation'',
      ''conflict'', ''violence'', ''protest'', ''strike'', ''unrest'']"

text \<open>The argument dict of the classifier: a key that is absent is \<open>None\<close>; an entity is
  a dict, read with \<open>e.get('entity_group')\<close>.\<close>

record article_data =
  data_translated_text :: "string option"
  data_raw_text :: "string option"
  data_entities :: "dict list option"

definition entities_of_group :: "string \<Rightarrow> dict list \<Rightarrow> dict list" where
  "entities_of_group g es = filter (\<lambda>e. map_of e ''entity_group'' = Some (JStr g)) es"

text \<open>The builtin \<open>any\<close> takes exactly one argument, an iterable. The source calls it
  with two booleans; Python evaluates both and then raises.\<close>

definition py_any2 :: "bool \<Rightarrow> bool \<Rightarrow> py_error + bool" where
  "py_any2 a b = Inl (TypeError ''any() takes exactly one argument (2 given)'')"

definition classify_article_priority :: "article_data \<Rightarrow> py_error + int" where
  "classify_article_priority d =
     (let t = (case data_translated_text d of Some x \<Rightarrow> x | None \<Rightarrow> []);
          text_to_analyze =
            (if t \<noteq> [] then t else (case data_raw_text d of Some x \<Rightarrow> x | None \<Rightarrow> []));
          text_lower = py_lower text_to_analyze;
          critical_count = count_if (\<lambda>keyword. str_in keyword text_lower) critical_keywords;
          high_count = count_if (\<lambda>keyword. str_in keyword text_lower) high_priority_keywords;
          entities = (case data_entities d of Some es \<Rightarrow> es | None \<Rightarrow> []);
          person_entities = entities_of_group ''PERSON'' entities;
          org_entities = entities_of_group ''ORGANIZATION'' entities
      in if critical_count \<ge> 2 then Inr 1
         else case py_any2 (str_in ''boko haram'' text_lower) (str_in ''terrorist'' text_lower) of
                Inl e \<Rightarrow> Inl e
              | Inr b \<Rightarrow>
                  if b then Inr 1
                  else if critical_count \<ge> 1 \<or> high_count \<ge> 3 then Inr 2
                  else if high_count \<ge> 1 \<or> length person_entities \<ge> 3
                          \<or> length org_entities \<ge> 2 then Inr 3
                  else Inr 4)"

section \<open>Entity merger (nlp-models/ner_service.py)\<close>

text \<open>An entity as \<open>analyze_entities\<close> builds it. Offsets are Python integers; the
  confidence is a float, taken as the rational it stands for, so that the mean of two
  confidences is exact.\<close>

record entity =
  word :: string
  entity_group :: string
  confidence :: rat
  start :: int
  end_pos :: int

definition adjacent :: "entity \<Rightarrow> entity \<Rightarrow> bool" where
  "adjacent current_entity next_entity =
     (entity_group current_entity = entity_group next_entity \<and>
      end_pos current_entity \<ge> start next_entity - 2)"

definition absorb :: "entity \<Rightarrow> entity \<Rightarrow> entity" where
  "absorb current_entity next_entity =
     current_entity\<lparr>word := word current_entity @ '' '' @ word next_entity,
                    end_pos := end_pos next_entity,
                    confidence := (confidence current_entity + confidence next_entity) / 2\<rparr>"

text \<open>The loop over \<open>entities[1:]\<close>, with the accumulator \<open>current_entity\<close> and the
  result list \<open>merged\<close>; after the loop the accumulator is appended.\<close>

fun merge_loop :: "entity \<Rightarrow> entity list \<Rightarrow> entity list \<Rightarrow> entity list" where
  "merge_loop current_entity merged [] = merged @ [current_entity]"
| "merge_loop current_entity merged (next_entity # rest) =
     (if adjacent current_entity next_entity
      then merge_loop (absorb current_entity next_entity) merged rest
      else merge_loop next_entity (merged @ [current_entity]) rest)"

definition merge_adjacent_entities :: "entity list \<Rightarrow> entity list" where
  "merge_adjacent_entities entities =
     (case entities of [] \<Rightarrow> [] | first # rest \<Rightarrow> merge_loop first [] rest)"

text \<open>What \<open>analyze_entities\<close> does with the processed entities: merge, then the stable
  \<open>sort\<close> by \<open>start\<close>.\<close>

definition final_entities :: "entity list \<Rightarrow> entity list" where
  "final_entities processed_entities =
     sort_key start (merge_adjacent_entities processed_entities)"

text \<open>A list in which no entity can absorb its right neighbour.\<close>

fun no_adjacent_pairs :: "entity list \<Rightarrow> bool" where
  "no_adjacent_pairs [] = True"
| "no_adjacent_pairs [e] = True"
| "no_adjacent_pairs (a # b # rest) = (\<not> adjacent a b \<and> no_adjacent_pairs (b # rest))"

section \<open>Article record (dashboard/models.py)\<close>

text \<open>The fields of \<open>NewsArticle\<close> that the pipeline reads or writes. \<open>location\<close> is
  the point \<open>set_coordinates\<close> builds; \<open>entity_count\<close> holds whatever the extraction
  response carries under that key.\<close>

record news_article =
  raw_text :: string
  processed_json :: dict
  location :: "coords option"
  language :: string
  processing_status :: string
  entity_count :: json
  content_length :: "nat option"
  word_count :: "nat option"

record log_entry =
  operation :: string
  status :: string
  processing_time :: "json option"

text \<open>A call that left the process: the translation request with its text and source
  language, or the extraction request with its text.\<close>

datatype service_call = TranslationCall string string | NerCall json

text \<open>The state a pipeline run works on: the article object in memory, the row the
  storage layer holds for it, the \<open>ProcessingLog\<close> rows in creation order, and the calls
  made so far. Storage itself is taken to succeed.\<close>

record pstate =
  art :: news_article
  db :: news_article
  logs :: "log_entry list"
  calls :: "service_call list"

text \<open>The \<open>save\<close> override first recomputes the content metrics; a plain \<open>save()\<close>
  writes every field, \<open>save(update_fields=['processing_status', 'processed_json',
  'updated_at'])\<close> writes those only.\<close>

definition content_metrics :: "news_article \<Rightarrow> news_article" where
  "content_metrics a =
     (if raw_text a \<noteq> []
      then a\<lparr>content_length := Some (length (raw_text a)),
             word_count := Some (length (py_split (raw_text a)))\<rparr>
      else a)"

definition save :: "pstate \<Rightarrow> pstate" where
  "save s = (let a = content_metrics (art s) in s\<lparr>art := a, db := a\<rparr>)"

definition save_status_and_json :: "pstate \<Rightarrow> pstate" where
  "save_status_and_json s =
     (let a = content_metrics (art s)
      in s\<lparr>art := a,
            db := (db s)\<lparr>processing_status := processing_status a,
                         processed_json := processed_json a\<rparr>\<rparr>)"

definition mark_processing_failed :: "string option \<Rightarrow> pstate \<Rightarrow> pstate" where
  "mark_processing_failed error_message s =
     (let a = (art s)\<lparr>processing_status := ''failed''\<rparr>;
          a' = (case error_message of
                  None \<Rightarrow> a
                | Some m \<Rightarrow>
                    if m \<noteq> [] \<and> processed_json a \<noteq> []
                    then a\<lparr>processed_json := dict_set (processed_json a) ''error'' (JStr m)\<rparr>
                    else a)
      in save_status_and_json (s\<lparr>art := a'\<rparr>))"

definition log_create :: "string \<Rightarrow> string \<Rightarrow> json option \<Rightarrow> pstate \<Rightarrow> pstate" where
  "log_create op st t s =
     s\<lparr>logs := logs s @ [\<lparr>operation = op, status = st, processing_time = t\<rparr>]\<rparr>"

section \<open>Pipeline orchestrator (dashboard/views.py)\<close>

definition view_french_indicators :: "string list" where
  "view_french_indicators =
     [''le'', ''la'', ''les'', ''de'', ''du'', ''des'', ''et'', ''dans'', ''pour'', ''avec'']"

definition view_english_indicators :: "string list" where
  "view_english_indicators =
     [''the'', ''and'', ''to'', ''of'', ''in'', ''for'', ''with'', ''on'', ''is'', ''are'']"

definition detect_article_language :: "string \<Rightarrow> string" where
  "detect_article_language text =
     (let text_lower = py_lower text;
          french_count = count_if (\<lambda>w. str_in w text_lower) view_french_indicators;
          english_count = count_if (\<lambda>w. str_in w text_lower) view_english_indicators
      in if french_count > english_count then ''fr''
         else if english_count > french_count then ''en''
         else ''auto'')"

text \<open>\<open>ProcessArticleView.geocode_location\<close> and its own table \<open>cameroon_locations\<close>.\<close>

definition cameroon_locations :: "(string \<times> coords) list" where
  "cameroon_locations =
     [(''yaound'' @ [CHR 0xE9], pt 3.8480 11.5021),
      (''yaounde'', pt 3.8480 11.5021),
      (''douala'', pt 4.0511 9.7679),
      (''bamenda'', pt 5.9631 10.1591),
      (''bafoussam'', pt 5.4781 10.4167),
      (''garoua'', pt 9.3265 13.3971),
      (''maroua'', pt 10.5969 14.3197),
      (''ngaound'' @ [CHR 0xE9] @ ''r'' @ [CHR 0xE9], pt 7.3167 13.5833),
      (''bertoua'', pt 4.5777 13.6836),
      (''buea'', pt 4.1559 9.2928),
      (''cameroon'', pt 3.8480 11.5021)]"

definition view_geocode_location :: "string \<Rightarrow> coords option" where
  "view_geocode_location location_name =
     (let location_lower = py_strip (py_lower location_name)
      in map_of cameroon_locations location_lower)"

text \<open>The two service calls are parameters of the run: each maps the request to the
  parsed body of a 200 response, or to \<open>None\<close> for a timeout, another status or a
  connection error, which is all \<open>call_translation_service\<close> and \<open>call_ner_service\<close>
  let through.\<close>

type_synonym translation_service = "string \<Rightarrow> string \<Rightarrow> dict option"
type_synonym ner_service = "json \<Rightarrow> dict option"

text \<open>Step 1: detect the language, store it, move to \<open>translating\<close>, save, log.\<close>

definition detect_step :: "pstate \<Rightarrow> pstate \<times> string" where
  "detect_step s =
     (let detected_lang = detect_article_language (raw_text (art s));
          s1 = save (s\<lparr>art := (art s)\<lparr>language := detected_lang,
                                        processing_status := ''translating''\<rparr>\<rparr>);
          s2 = log_create ''translation'' ''started'' None s1
      in (s2, detected_lang))"

text \<open>Step 2: returns the state, the \<open>results\<close> dict and \<open>text_for_ner\<close>. A response
  is used when it is truthy, that is, a dict with at least one key.\<close>

definition translation_step ::
  "translation_service \<Rightarrow> string \<Rightarrow> pstate \<Rightarrow> pstate \<times> dict \<times> json" where
  "translation_step translate detected_lang s =
     (let raw = raw_text (art s);
          results = [];
          text_for_ner = JStr raw
      in if detected_lang \<noteq> ''en''
         then let s1 = s\<lparr>calls := calls s @ [TranslationCall raw detected_lang]\<rparr>;
                  translation_result = translate raw detected_lang
              in case translation_result of
                   None \<Rightarrow> (log_create ''translation'' ''failed'' None s1, results, text_for_ner)
                 | Some tr \<Rightarrow>
                     if tr \<noteq> []
                     then (log_create ''translation'' ''completed''
                             (Some (dict_get tr ''processing_time'' (JInt 0))) s1,
                           dict_set results ''translation'' (JDict tr),
                           dict_get tr ''translated_text'' (JStr raw))
                     else (log_create ''translation'' ''failed'' None s1, results, text_for_ner)
         else (s,
               dict_set results ''translation''
                 (JDict [(''translated_text'', text_for_ner),
                         (''detected_language'', JStr ''en''),
                         (''processing_time'', JFloat 0)]),
               text_for_ner))"

text \<open>\<open>for entity in v\<close>: a list yields its elements, a dict its keys, a string its
  characters; anything else is not iterable.\<close>

fun iterate :: "json \<Rightarrow> py_error + json list" where
  "iterate (JList xs) = Inr xs"
| "iterate (JDict d) = Inr (map (\<lambda>kv. JStr (fst kv)) d)"
| "iterate (JStr s) = Inr (map (\<lambda>c. JStr [c]) s)"
| "iterate v = Inl (not_iterable v)"

text \<open>The comprehension that keeps the entities whose \<open>entity_group\<close> is \<open>LOCATION\<close>;
  \<open>entity.get\<close> raises at the first element that is not a dict.\<close>

fun location_entities_of :: "json list \<Rightarrow> py_error + dict list" where
  "location_entities_of [] = Inr []"
| "location_entities_of (JDict e # rest) =
     (case location_entities_of rest of
        Inl err \<Rightarrow> Inl err
      | Inr found \<Rightarrow>
          Inr (if map_of e ''entity_group'' = Some (JStr ''LOCATION'') then e # found
               else found))"
| "location_entities_of (v # rest) = Inl (no_attribute v ''get'')"

text \<open>Step 4: geocode the first location entity when the article has no location.
  Nothing is written before the last point that can raise, so an error leaves the state
  as it was on entry.\<close>

definition geocoding_step :: "dict \<Rightarrow> pstate \<Rightarrow> py_error + pstate" where
  "geocoding_step ner_result s =
     (case iterate (dict_get ner_result ''entities'' (JList [])) of
        Inl err \<Rightarrow> Inl err
      | Inr items \<Rightarrow>
          (case location_entities_of items of
             Inl err \<Rightarrow> Inl err
           | Inr location_entities \<Rightarrow>
               (case location_entities of
                  [] \<Rightarrow> Inr s
                | first # others \<Rightarrow>
                    if location (art s) \<noteq> None then Inr s
                    else (case map_of first ''word'' of
                            None \<Rightarrow> Inl (KeyError ''word'')
                          | Some (JStr first_location) \<Rightarrow>
                              (case view_geocode_location first_location of
                                 None \<Rightarrow> Inr s
                               | Some coordinates \<Rightarrow>
                                   Inr (log_create ''geocoding'' ''completed'' None
                                          (s\<lparr>art := (art s)\<lparr>location := Some coordinates\<rparr>\<rparr>)))
                          | Some v \<Rightarrow> Inl (no_attribute v ''lower'')))))"

text \<open>Step 3: move to \<open>extracting_entities\<close>, call the service, record its answer. An
  error comes back with the state at the point of the raise.\<close>

definition ner_step ::
  "ner_service \<Rightarrow> json \<Rightarrow> dict \<Rightarrow> pstate \<Rightarrow> (py_error \<times> pstate) + (pstate \<times> dict)" where
  "ner_step ner text_for_ner results s =
     (let s1 = save (s\<lparr>art := (art s)\<lparr>processing_status := ''extracting_entities''\<rparr>\<rparr>);
          s2 = log_create ''ner_extraction'' ''started'' None s1;
          s3 = s2\<lparr>calls := calls s2 @ [NerCall text_for_ner]\<rparr>;
          failed = Inr (log_create ''ner_extraction'' ''failed'' None s3, results)
      in case ner text_for_ner of
           None \<Rightarrow> failed
         | Some ner_result \<Rightarrow>
             if ner_result = [] then failed
             else let results' = dict_set results ''entities'' (JDict ner_result);
                      s4 = s3\<lparr>art := (art s3)\<lparr>entity_count :=
                                      dict_get ner_result ''entity_count'' (JInt 0)\<rparr>\<rparr>;
                      s5 = log_create ''ner_extraction'' ''completed''
                             (Some (dict_get ner_result ''processing_time'' (JInt 0))) s4
                  in case geocoding_step ner_result s5 of
                       Inl err \<Rightarrow> Inl (err, s5)
                     | Inr s6 \<Rightarrow> Inr (s6, results'))"

text \<open>The whole run on an article that was saved as \<open>pending\<close>. The result is the final
  state and the dict the method returns. The \<open>except\<close> branch marks the article failed
  with \<open>str(e)\<close>.\<close>

definition process_article_pipeline ::
  "translation_service \<Rightarrow> ner_service \<Rightarrow> news_article \<Rightarrow> pstate \<times> dict" where
  "process_article_pipeline translate ner article =
     (let s0 = \<lparr>art = article, db = article, logs = [], calls = []\<rparr>;
          (s1, detected_lang) = detect_step s0;
          (s2, results, text_for_ner) = translation_step translate detected_lang s1
      in case ner_step ner text_for_ner results s2 of
           Inr (s3, results') \<Rightarrow>
             (save (s3\<lparr>art := (art s3)\<lparr>processed_json := results',
                                          processing_status := ''processed''\<rparr>\<rparr>),
              results')
         | Inl (e, s3) \<Rightarrow>
             (mark_processing_failed (Some (error_str e)) s3,
              [(''error'', JStr (error_str e))]))"

text \<open>A freshly created article, as \<open>post\<close> hands it to the pipeline.\<close>

definition new_article :: "string \<Rightarrow> news_article" where
  "new_article t =
     \<lparr>raw_text = t, processed_json = [], location = None, language = ''unknown'',
      processing_status = ''pending'', entity_count = JInt 0,
      content_length = (if t \<noteq> [] then Some (length t) else None),
      word_count = (if t \<noteq> [] then Some (length (py_split t)) else None)\<rparr>"



section \<open>Concrete inputs\<close>

definition ex_x :: entity where
  "ex_x = \<lparr>word = ''Biya'', entity_group = ''PERSON'', confidence = 0.9, start = 10, end_pos = 14\<rparr>"
definition ex_y :: entity where
  "ex_y = \<lparr>word = ''Buea'', entity_group = ''LOCATION'', confidence = 0.9, start = 0, end_pos = 4\<rparr>"
definition ex_z :: entity where
  "ex_z = \<lparr>word = ''Paul'', entity_group = ''PERSON'', confidence = 0.9, start = 5, end_pos = 9\<rparr>"


definition protest_article :: article_data where
  "protest_article =
     \<lparr>data_translated_text = None,
      data_raw_text = Some ''Four leaders joined the protest'',
      data_entities = Some (replicate 4 [(''entity_group'', JStr ''PERSON'')])\<rparr>"

definition french_text :: string where
  "french_text = ''Le ministre est dans la ville''"

definition translation_down :: translation_service where
  "translation_down t l = None"



definition ner_down :: ner_service where
  "ner_down t = None"

definition ner_missing_word :: ner_service where
  "ner_missing_word t =
     Some [(''entities'', JList [JDict [(''entity_group'', JStr ''LOCATION'')]]),
           (''entity_count'', JInt 1)]"

definition douala_entity :: dict where
  "douala_entity = [(''word'', JStr ''Douala''), (''entity_group'', JStr ''LOCATION'')]"

definition douala_response :: dict where
  "douala_response = [(''entities'', JList [JDict douala_entity]), (''entity_count'', JInt 1)]"


definition fresh_state :: pstate where
  "fresh_state =
     \<lparr>art = new_article french_text, db = new_article french_text, logs = [], calls = []\<rparr>"





section \<open>Properties of the string operations\<close>

lemma is_space_lower_char: "is_space (lower_char c) = is_space c"
  by (simp add: lower_char_def upper_chars_def lower_chars_def is_space_def)

lemma py_split_none: "dropWhile is_space s = [] \<Longrightarrow> py_split s = []"
  by (subst py_split.simps) (simp only: list.case)

lemma py_split_some:
  "dropWhile is_space s = c # cs \<Longrightarrow>
   py_split s = takeWhile (\<lambda>x. \<not> is_space x) (c # cs) # py_split (dropWhile (\<lambda>x. \<not> is_space x) cs)"
  by (subst py_split.simps) (simp only: list.case)

lemma py_split_dropWhile: "py_split (dropWhile is_space s) = py_split s"
  by (subst py_split.simps, subst (2) py_split.simps) simp

lemma py_split_all_space: "\<forall>c\<in>set s. is_space c \<Longrightarrow> py_split s = []"
  by (rule py_split_none) (simp add: dropWhile_eq_Nil_conv)

lemma py_split_append_space:
  "\<forall>c\<in>set sp. is_space c \<Longrightarrow> py_split (t @ sp) = py_split t"
proof (induction t rule: py_split.induct)
  case (1 s)
  show ?case
  proof (cases "dropWhile is_space s")
    case Nil
    then have "\<forall>c\<in>set s. is_space c" by (simp add: dropWhile_eq_Nil_conv)
    with 1(2) have "\<forall>c\<in>set (s @ sp). is_space c" by auto
    then have "py_split (s @ sp) = []" by (rule py_split_all_space)
    moreover have "py_split s = []" using Nil by (rule py_split_none)
    ultimately show ?thesis by simp
  next
    case (Cons c cs)
    then obtain x where "x \<in> set s" "\<not> is_space x"
      by (metis dropWhile_eq_Nil_conv list.distinct(1))
    then have "dropWhile is_space (s @ sp) = dropWhile is_space s @ sp"
      by (rule dropWhile_append1)
    then have dw: "dropWhile is_space (s @ sp) = c # (cs @ sp)"
      using Cons by simp
    have nsc: "\<not> is_space c" using Cons by (metis hd_dropWhile list.sel(1) list.distinct(1))
    have IH: "py_split (dropWhile (\<lambda>x. \<not> is_space x) cs @ sp) = py_split (dropWhile (\<lambda>x. \<not> is_space x) cs)"
      using 1(1)[OF Cons] 1(2) by simp
    show ?thesis
    proof (cases "\<exists>x\<in>set cs. is_space x")
      case True
      then have "takeWhile (\<lambda>x. \<not> is_space x) (cs @ sp) = takeWhile (\<lambda>x. \<not> is_space x) cs"
        and "dropWhile (\<lambda>x. \<not> is_space x) (cs @ sp) = dropWhile (\<lambda>x. \<not> is_space x) cs @ sp"
        by (auto simp: takeWhile_append1 dropWhile_append1)
      then show ?thesis
        using nsc IH by (simp add: py_split_some[OF dw] py_split_some[OF Cons])
    next
      case False
      then have a: "takeWhile (\<lambda>x. \<not> is_space x) (cs @ sp) = cs @ takeWhile (\<lambda>x. \<not> is_space x) sp"
        and b: "dropWhile (\<lambda>x. \<not> is_space x) (cs @ sp) = dropWhile (\<lambda>x. \<not> is_space x) sp"
        and c: "takeWhile (\<lambda>x. \<not> is_space x) cs = cs" "dropWhile (\<lambda>x. \<not> is_space x) cs = []"
        by (auto simp: takeWhile_append2 dropWhile_append2)
      have d: "takeWhile (\<lambda>x. \<not> is_space x) sp = []" "dropWhile (\<lambda>x. \<not> is_space x) sp = sp"
        using 1(2) by (cases sp; simp)+
      have e: "py_split sp = []" using 1(2) by (rule py_split_all_space)
      have f: "py_split [] = []" by (rule py_split_none) simp
      have "py_split (s @ sp) = [c # cs]"
        by (simp add: py_split_some[OF dw] nsc a b d e)
      moreover have "py_split s = [c # cs]"
        by (simp add: py_split_some[OF Cons] nsc c f)
      ultimately show ?thesis by simp
    qed
  qed
qed

lemma py_split_strip: "py_split (py_strip s) = py_split s"
proof -
  let ?d = "dropWhile is_space s"
  have "?d = rev (dropWhile is_space (rev ?d)) @ rev (takeWhile is_space (rev ?d))"
    by (metis rev_append rev_rev_ident takeWhile_dropWhile_id)
  moreover have "\<forall>c\<in>set (rev (takeWhile is_space (rev ?d))). is_space c"
    by (auto dest: set_takeWhileD)
  ultimately have "py_split ?d = py_split (rev (dropWhile is_space (rev ?d)))"
    by (metis py_split_append_space)
  then show ?thesis by (simp add: py_strip_def py_split_dropWhile)
qed

lemma lower_comp: "is_space \<circ> lower_char = is_space"
    "(\<lambda>x. \<not> is_space x) \<circ> lower_char = (\<lambda>x. \<not> is_space x)"
  by (auto simp: fun_eq_iff is_space_lower_char)

lemma py_split_lower: "py_split (py_lower s) = map py_lower (py_split s)"
proof (induction s rule: py_split.induct)
  case (1 s)
  show ?case
  proof (cases "dropWhile is_space s")
    case Nil
    then have "dropWhile is_space (py_lower s) = []"
      by (simp add: py_lower_def dropWhile_map lower_comp)
    then show ?thesis using Nil by (simp add: py_split_none)
  next
    case (Cons c cs)
    then have dl: "dropWhile is_space (py_lower s) = lower_char c # py_lower cs"
      by (simp add: py_lower_def dropWhile_map lower_comp)
    from 1[OF Cons] show ?thesis
      by (simp add: py_split_some[OF dl] py_split_some[OF Cons] is_space_lower_char)
         (simp add: py_lower_def dropWhile_map takeWhile_map lower_comp)
  qed
qed

lemma py_strip_lower: "py_strip (py_lower s) = py_lower (py_strip s)"
  by (simp add: py_strip_def py_lower_def dropWhile_map rev_map lower_comp)

section \<open>The language detector\<close>

lemma indicator_score_Cons:
  "indicator_score cats (w # ws) = indicator_score cats [w] + indicator_score cats ws"
  by (induction cats ws rule: indicator_score.induct) (auto simp: count_if_def)

lemma english_word_score:
  "w \<in> set english_words \<Longrightarrow>
   indicator_score english_indicators [w] = 1 \<and> indicator_score french_indicators [w] = 0"
  by (auto simp: english_words_def english_indicators_def french_indicators_def count_if_def)

lemma french_word_score:
  "w \<in> set french_words \<Longrightarrow>
   indicator_score french_indicators [w] = 1 \<and> indicator_score english_indicators [w] = 0"
  by (auto simp: french_words_def english_indicators_def french_indicators_def count_if_def)

lemma english_scores:
  "set ws \<subseteq> set english_words \<Longrightarrow>
   indicator_score english_indicators ws = length ws \<and> indicator_score french_indicators ws = 0"
proof (induction ws)
  case Nil
  show ?case by (simp add: english_indicators_def french_indicators_def count_if_def)
next
  case (Cons w ws)
  then show ?case
    using english_word_score[of w]
    by (simp add: indicator_score_Cons[of _ w ws])
qed

lemma french_scores:
  "set ws \<subseteq> set french_words \<Longrightarrow>
   indicator_score french_indicators ws = length ws \<and> indicator_score english_indicators ws = 0"
proof (induction ws)
  case Nil
  show ?case by (simp add: english_indicators_def french_indicators_def count_if_def)
next
  case (Cons w ws)
  then show ?case
    using french_word_score[of w]
    by (simp add: indicator_score_Cons[of _ w ws])
qed

lemma english_word_lower: "w \<in> set english_words \<Longrightarrow> py_lower w = w"
  by (auto simp: english_words_def english_indicators_def py_lower_def lower_char_def
                 upper_chars_def lower_chars_def)

lemma french_word_lower: "w \<in> set french_words \<Longrightarrow> py_lower w = w"
  by (auto simp: french_words_def french_indicators_def py_lower_def lower_char_def
                 upper_chars_def lower_chars_def)

lemma detect_words: "py_split (py_strip (py_lower text)) = map py_lower (py_split text)"
  by (simp add: py_split_strip py_split_lower)

text \<open>
  C9. \<open>detect_language\<close> returns \<open>auto\<close> for every text whose stripped length is under
  10 characters or that has fewer than 5 whitespace-separated words. For a text of at
  least 10 characters and 5 words all of whose words come from the English indicator
  lists it returns \<open>en\<close>; when all of them come from the French indicator lists it
  returns \<open>fr\<close>.
\<close>

theorem detect_language_spec:
  "(length (py_strip text) < 10 \<or> length (py_split text) < 5
      \<longrightarrow> detect_language text = ''auto'') \<and>
   (10 \<le> length (py_strip text) \<and> 5 \<le> length (py_split text) \<and>
    set (py_split text) \<subseteq> set english_words
      \<longrightarrow> detect_language text = ''en'') \<and>
   (10 \<le> length (py_strip text) \<and> 5 \<le> length (py_split text) \<and>
    set (py_split text) \<subseteq> set french_words
      \<longrightarrow> detect_language text = ''fr'')"
proof (intro conjI impI)
  assume "length (py_strip text) < 10 \<or> length (py_split text) < 5"
  then show "detect_language text = ''auto''"
    by (auto simp: detect_language_def Let_def detect_words)
next
  assume h: "10 \<le> length (py_strip text) \<and> 5 \<le> length (py_split text) \<and>
    set (py_split text) \<subseteq> set english_words"
  then have "map py_lower (py_split text) = py_split text"
    by (auto intro!: map_idI english_word_lower)
  then have ws: "py_split (py_strip (py_lower text)) = py_split text"
    by (simp add: detect_words)
  from h have ne: "text \<noteq> []" by (auto simp: py_strip_def)
  from h have pos: "py_split text \<noteq> []" by auto
  from h english_scores[of "py_split text"] ne pos show "detect_language text = ''en''"
    by (simp add: detect_language_def Let_def ws)
next
  assume h: "10 \<le> length (py_strip text) \<and> 5 \<le> length (py_split text) \<and>
    set (py_split text) \<subseteq> set french_words"
  then have "map py_lower (py_split text) = py_split text"
    by (auto intro!: map_idI french_word_lower)
  then have ws: "py_split (py_strip (py_lower text)) = py_split text"
    by (simp add: detect_words)
  from h have ne: "text \<noteq> []" by (auto simp: py_strip_def)
  from h have pos: "py_split text \<noteq> []" by auto
  from h french_scores[of "py_split text"] ne pos show "detect_language text = ''fr''"
    by (simp add: detect_language_def Let_def ws)
qed


theorem detect_language_spec_witness:
  "length (py_split ''is it'') < 5 \<and> detect_language ''is it'' = ''auto'' \<and>
   10 \<le> length (py_strip ''this is for you and for they'') \<and>
   5 \<le> length (py_split ''this is for you and for they'') \<and>
   set (py_split ''this is for you and for they'') \<subseteq> set english_words \<and>
   detect_language ''this is for you and for they'' = ''en'' \<and>
   10 \<le> length (py_strip ''nous et vous sont dans la'') \<and>
   5 \<le> length (py_split ''nous et vous sont dans la'') \<and>
   set (py_split ''nous et vous sont dans la'') \<subseteq> set french_words \<and>
   detect_language ''nous et vous sont dans la'' = ''fr''"
  using detect_language_spec[of "''is it''"]
        detect_language_spec[of "''this is for you and for they''"]
        detect_language_spec[of "''nous et vous sont dans la''"]
  by (simp add: py_split.simps is_space_def py_strip_def english_words_def
                english_indicators_def french_words_def french_indicators_def)

section \<open>The gazetteer\<close>










section \<open>The entity merger\<close>

lemma merge_loop_acc: "merge_loop cur acc rest = acc @ merge_loop cur [] rest"
proof (induction rest arbitrary: cur acc)
  case Nil
  show ?case by simp
next
  case (Cons n rest)
  show ?case
  proof (cases "adjacent cur n")
    case True
    then show ?thesis using Cons[of "absorb cur n" acc] by simp
  next
    case False
    then show ?thesis using Cons[of n "acc @ [cur]"] Cons[of n "[cur]"] by simp
  qed
qed

lemma merge_adjacent_step:
  "merge_adjacent_entities (a # b # rest) =
     (if adjacent a b then merge_adjacent_entities (absorb a b # rest)
      else a # merge_adjacent_entities (b # rest))"
  using merge_loop_acc[of b "[a]" rest] by (simp add: merge_adjacent_entities_def)

lemma adjacent_cong:
  "start x = start y \<Longrightarrow> entity_group x = entity_group y \<Longrightarrow> adjacent a x = adjacent a y"
  by (simp add: adjacent_def)

lemma merge_loop_head:
  "\<exists>h t. merge_loop cur [] rest = h # t \<and> start h = start cur \<and>
         entity_group h = entity_group cur"
proof (induction rest arbitrary: cur)
  case Nil
  show ?case by simp
next
  case (Cons n rest)
  show ?case
  proof (cases "adjacent cur n")
    case True
    then show ?thesis using Cons[of "absorb cur n"] by (simp add: absorb_def)
  next
    case False
    then show ?thesis using merge_loop_acc[of n "[cur]" rest] by simp
  qed
qed

lemma merge_loop_no_adjacent: "no_adjacent_pairs (merge_loop cur [] rest)"
proof (induction rest arbitrary: cur)
  case Nil
  show ?case by simp
next
  case (Cons n rest)
  show ?case
  proof (cases "adjacent cur n")
    case True
    then show ?thesis using Cons[of "absorb cur n"] by simp
  next
    case False
    obtain h t where ht: "merge_loop n [] rest = h # t" "start h = start n"
      "entity_group h = entity_group n"
      using merge_loop_head[of n rest] by blast
    have "\<not> adjacent cur h" using False adjacent_cong[OF ht(2,3)] by simp
    moreover have "no_adjacent_pairs (h # t)" using Cons[of n] ht(1) by simp
    ultimately show ?thesis
      using False ht(1) merge_loop_acc[of n "[cur]" rest] by simp
  qed
qed

lemma merge_no_adjacent: "no_adjacent_pairs (merge_adjacent_entities es)"
  by (cases es) (simp_all add: merge_adjacent_entities_def merge_loop_no_adjacent)

lemma merge_fixed: "no_adjacent_pairs es \<Longrightarrow> merge_adjacent_entities es = es"
proof (induction es rule: no_adjacent_pairs.induct)
  case 1
  show ?case by (simp add: merge_adjacent_entities_def)
next
  case (2 e)
  show ?case by (simp add: merge_adjacent_entities_def)
next
  case (3 a b rest)
  then show ?case by (simp add: merge_adjacent_step)
qed

lemma merge_idem: "merge_adjacent_entities (merge_adjacent_entities es) = merge_adjacent_entities es"
  by (rule merge_fixed) (rule merge_no_adjacent)

lemma merge_loop_starts:
  "sorted (map start (cur # rest)) \<Longrightarrow>
   sorted (map start (merge_loop cur [] rest)) \<and>
   set (map start (merge_loop cur [] rest)) \<subseteq> set (map start (cur # rest))"
proof (induction rest arbitrary: cur)
  case Nil
  show ?case by simp
next
  case (Cons n rest)
  show ?case
  proof (cases "adjacent cur n")
    case True
    have "sorted (map start (absorb cur n # rest))"
      using Cons.prems by (simp add: absorb_def)
    from Cons.IH[OF this] True show ?thesis by (auto simp: absorb_def)
  next
    case False
    have s: "sorted (map start (n # rest))" using Cons.prems by simp
    have eq: "merge_loop cur [] (n # rest) = cur # merge_loop n [] rest"
      using False merge_loop_acc[of n "[cur]" rest] by simp
    have "\<forall>x\<in>set (map start (n # rest)). start cur \<le> x" using Cons.prems by auto
    with Cons.IH[OF s] show ?thesis unfolding eq by auto
  qed
qed

lemma merge_sorted:
  "sorted (map start es) \<Longrightarrow> sorted (map start (merge_adjacent_entities es))"
  by (cases es) (simp_all add: merge_adjacent_entities_def merge_loop_starts)

lemma final_entities_sorted_input:
  "sorted (map start es) \<Longrightarrow> final_entities es = merge_adjacent_entities es"
  by (simp add: final_entities_def merge_sorted sort_key_id_if_sorted)



text \<open>
  C7, as stated, fails: the extractor output Biya (PERSON, 10 to 14), Buea (LOCATION,
  0 to 4), Paul (PERSON, 5 to 9) merges to itself, the sort moves Biya behind Paul, and
  merging the sorted list again joins the two.
\<close>

theorem merger_not_idempotent:
  "final_entities [ex_x, ex_y, ex_z] = [ex_y, ex_z, ex_x] \<and>
   adjacent ex_z ex_x \<and>
   merge_adjacent_entities (final_entities [ex_x, ex_y, ex_z]) = [ex_y, absorb ex_z ex_x] \<and>
   merge_adjacent_entities (final_entities [ex_x, ex_y, ex_z]) \<noteq>
     final_entities [ex_x, ex_y, ex_z] \<and>
   final_entities (final_entities [ex_x, ex_y, ex_z]) \<noteq> final_entities [ex_x, ex_y, ex_z]"
  by code_simp

text \<open>
  C7, amended. The merge pass alone is idempotent on every list: its output contains no
  two consecutive entities that satisfy the merge condition, and merging it again returns
  it unchanged. The merged and sorted list that \<open>analyze_entities\<close> returns is a fixed
  point of merge-and-sort whenever the extractor output was already in start order.
\<close>

theorem merge_idempotent_stable:
  "merge_adjacent_entities (merge_adjacent_entities es) = merge_adjacent_entities es \<and>
   no_adjacent_pairs (merge_adjacent_entities es) \<and>
   (sorted (map start es) \<longrightarrow>
      final_entities (final_entities es) = final_entities es \<and>
      no_adjacent_pairs (final_entities es))"
proof (intro conjI impI)
  assume s: "sorted (map start es)"
  then have f: "final_entities es = merge_adjacent_entities es"
    by (rule final_entities_sorted_input)
  have "sorted (map start (merge_adjacent_entities es))" using s by (rule merge_sorted)
  then have "final_entities (merge_adjacent_entities es) =
             merge_adjacent_entities (merge_adjacent_entities es)"
    by (rule final_entities_sorted_input)
  then show "final_entities (final_entities es) = final_entities es"
    by (simp add: f merge_idem)
  show "no_adjacent_pairs (final_entities es)" by (simp add: f merge_no_adjacent)
qed (rule merge_idem merge_no_adjacent)+

theorem merge_idempotent_stable_witness:
  "sorted (map start [ex_y, ex_z, ex_x]) \<and>
   final_entities (final_entities [ex_y, ex_z, ex_x]) = final_entities [ex_y, ex_z, ex_x] \<and>
   no_adjacent_pairs (final_entities [ex_y, ex_z, ex_x])"
proof -
  have h: "sorted (map start [ex_y, ex_z, ex_x])" by code_simp
  show ?thesis using h merge_idempotent_stable[of "[ex_y, ex_z, ex_x]"] by blast
qed

section \<open>The priority classifier\<close>

text \<open>
  C1. On a text that contains "protest" once and no critical keyword, with four PERSON
  entities, \<open>classify_article_priority\<close> does not return priority 3: the critical count
  is below 2, so the call of \<open>any\<close> with two arguments is reached and raises.
\<close>

theorem classify_article_priority_raises:
  "classify_article_priority protest_article =
     Inl (TypeError ''any() takes exactly one argument (2 given)'')"
  by code_simp

section \<open>The orchestrator\<close>

lemma content_metrics_fields [simp]:
  "language (content_metrics a) = language a"
  "raw_text (content_metrics a) = raw_text a"
  "processing_status (content_metrics a) = processing_status a"
  "processed_json (content_metrics a) = processed_json a"
  "location (content_metrics a) = location a"
  by (simp_all add: content_metrics_def)

lemma log_create_fields [simp]:
  "art (log_create op st t s) = art s"
  "db (log_create op st t s) = db s"
  "calls (log_create op st t s) = calls s"
  "logs (log_create op st t s) = logs s @ [\<lparr>operation = op, status = st, processing_time = t\<rparr>]"
  by (simp_all add: log_create_def)

lemma save_fields [simp]:
  "art (save s) = content_metrics (art s)"
  "db (save s) = content_metrics (art s)"
  "logs (save s) = logs s"
  "calls (save s) = calls s"
  by (simp_all add: save_def Let_def)

lemma detect_step_result:
  "snd (detect_step s) = detect_article_language (raw_text (art s))"
  "language (art (fst (detect_step s))) = detect_article_language (raw_text (art s))"
  "language (db (fst (detect_step s))) = detect_article_language (raw_text (art s))"
  "processing_status (db (fst (detect_step s))) = ''translating''"
  "raw_text (art (fst (detect_step s))) = raw_text (art s)"
  "location (art (fst (detect_step s))) = location (art s)"
  "calls (fst (detect_step s)) = calls s"
  "logs (fst (detect_step s)) =
     logs s @ [\<lparr>operation = ''translation'', status = ''started'', processing_time = None\<rparr>]"
  by (simp_all add: detect_step_def Let_def)

lemma translation_step_state:
  "art (fst (translation_step translate lang s)) = art s"
  "db (fst (translation_step translate lang s)) = db s"
  by (simp_all add: translation_step_def Let_def split: option.splits)

lemma geocoding_step_fields:
  "geocoding_step r s = Inr s' \<Longrightarrow>
   language (art s') = language (art s) \<and> raw_text (art s') = raw_text (art s) \<and>
   calls s' = calls s \<and> take (length (logs s)) (logs s') = logs s"
  by (auto simp: geocoding_step_def split: sum.splits list.splits option.splits json.splits if_splits)

lemma ner_step_ok_fields:
  "ner_step ner t results s = Inr (s', r') \<Longrightarrow>
   language (art s') = language (art s) \<and> raw_text (art s') = raw_text (art s) \<and>
   calls s' = calls s @ [NerCall t]"
  by (auto simp: ner_step_def Let_def split: option.splits if_splits sum.splits
           dest!: geocoding_step_fields)

lemma ner_step_err_fields:
  "ner_step ner t results s = Inl (e, s') \<Longrightarrow>
   language (db s') = language (art s) \<and> processed_json (art s') = processed_json (art s) \<and>
   calls s' = calls s @ [NerCall t]"
  by (auto simp: ner_step_def Let_def split: option.splits if_splits sum.splits)

lemma mark_failed_fields:
  "language (db (mark_processing_failed m s)) = language (db s)"
  "processing_status (db (mark_processing_failed m s)) = ''failed''"
  "processing_status (art (mark_processing_failed m s)) = ''failed''"
  "calls (mark_processing_failed m s) = calls s"
  "logs (mark_processing_failed m s) = logs s"
  by (simp_all add: mark_processing_failed_def save_status_and_json_def Let_def
               split: option.splits)

lemma pipeline_language:
  "language (db (fst (process_article_pipeline translate ner a))) =
     detect_article_language (raw_text a)"
proof -
  let ?s0 = "\<lparr>art = a, db = a, logs = [], calls = []\<rparr>"
  let ?s1 = "fst (detect_step ?s0)"
  let ?lang = "snd (detect_step ?s0)"
  let ?t = "translation_step translate ?lang ?s1"
  let ?s2 = "fst ?t"
  have l2: "language (art ?s2) = detect_article_language (raw_text a)"
    by (simp add: translation_step_state detect_step_result)
  show ?thesis
  proof (cases "ner_step ner (snd (snd ?t)) (fst (snd ?t)) ?s2")
    case (Inl p)
    obtain e s3 where p: "p = (e, s3)" by (cases p)
    from Inl p ner_step_err_fields[of ner _ _ ?s2 e s3] l2
    show ?thesis
      by (simp add: process_article_pipeline_def Let_def split_beta mark_failed_fields)
  next
    case (Inr p)
    obtain s3 r where p: "p = (s3, r)" by (cases p)
    from Inr p ner_step_ok_fields[of ner _ _ ?s2 s3 r] l2
    show ?thesis
      by (simp add: process_article_pipeline_def Let_def split_beta)
  qed
qed

text \<open>
  C3, as stated, fails: on the raw texts "is it on" and "students often think about
  forests" the orchestrator stores \<open>en\<close> while \<open>detect_language\<close> returns \<open>auto\<close>.
\<close>

theorem orchestrator_language_counterexample:
  "language (db (fst (process_article_pipeline translation_down ner_down
       (new_article ''is it on'')))) = ''en'' \<and>
   detect_language ''is it on'' = ''auto'' \<and>
   language (db (fst (process_article_pipeline translation_down ner_down
       (new_article ''students often think about forests'')))) = ''en'' \<and>
   detect_language ''students often think about forests'' = ''auto''"
  by code_simp

text \<open>
  C3, amended. The language the orchestrator stores at the step from \<open>pending\<close> to
  \<open>translating\<close>, and the one the record carries at the end of the run, is the result of
  the orchestrator's own \<open>detect_article_language\<close> on the raw text.
\<close>

theorem orchestrator_language:
  "snd (detect_step s) = detect_article_language (raw_text (art s)) \<and>
   language (db (fst (detect_step s))) = detect_article_language (raw_text (art s)) \<and>
   processing_status (db (fst (detect_step s))) = ''translating'' \<and>
   language (db (fst (process_article_pipeline translate ner a))) =
     detect_article_language (raw_text a)"
  by (simp add: detect_step_result pipeline_language)

text \<open>
  C2. A new French article, the translation service down, the extraction service
  answering with a LOCATION entity that has no \<open>word\<close>: the lookup raises
  \<open>KeyError\<close>, the record is stored as \<open>failed\<close>, and its results are still the empty
  dict, with no \<open>error\<close> key; the message only appears in the value the method returns.
\<close>

theorem failed_article_has_no_error:
  "processing_status (db (fst (process_article_pipeline translation_down ner_missing_word
       (new_article french_text)))) = ''failed'' \<and>
   processed_json (db (fst (process_article_pipeline translation_down ner_missing_word
       (new_article french_text)))) = [] \<and>
   map_of (processed_json (db (fst (process_article_pipeline translation_down ner_missing_word
       (new_article french_text))))) ''error'' = None \<and>
   snd (process_article_pipeline translation_down ner_missing_word (new_article french_text)) =
     [(''error'', JStr (quoted ''word''))]"
  by code_simp

lemma cameroon_locations_all:
  "list_all (\<lambda>e. map_of location_database (fst e) = Some (snd e)) cameroon_locations"
  by code_simp

lemma cameroon_locations_sub:
  assumes "map_of cameroon_locations k = Some c"
  shows "map_of location_database k = Some c"
proof -
  from assms have "(k, c) \<in> set cameroon_locations" by (rule map_of_SomeD)
  with cameroon_locations_all show ?thesis by (auto simp: list_all_iff)
qed

text \<open>
  C4, as stated, fails: the gazetteer resolves "Limbe" exactly and "Douala City" by
  substring; the orchestrator's own lookup resolves neither.
\<close>

theorem orchestrator_geocoding_counterexample:
  "view_geocode_location ''Limbe'' = None \<and>
   geocode_location ''Limbe'' = Some (pt 4.0186 9.2105) \<and>
   view_geocode_location ''Douala City'' = None \<and>
   geocode_location ''Douala City'' = Some (pt 4.0511 9.7679)"
  by code_simp

text \<open>
  C4, amended. The orchestrator resolves the first LOCATION entity of an article without
  location by an exact lookup of the lower-cased, stripped name in its own eleven-entry
  table, with no substring fallback. Every name it resolves, the gazetteer resolves to
  the same coordinates.
\<close>

theorem orchestrator_geocoding_exact:
  "view_geocode_location n = map_of cameroon_locations (py_strip (py_lower n)) \<and>
   (view_geocode_location n = Some c \<longrightarrow> geocode_location n = Some c) \<and>
   (location (art s) = None \<and> dict_get r ''entities'' (JList []) = JList items \<and>
    location_entities_of items = Inr (first # others) \<and>
    map_of first ''word'' = Some (JStr n)
      \<longrightarrow> (\<exists>s'. geocoding_step r s = Inr s' \<and> location (art s') = view_geocode_location n))"
proof (intro conjI impI)
  show "view_geocode_location n = map_of cameroon_locations (py_strip (py_lower n))"
    by (simp add: view_geocode_location_def)
  show "geocode_location n = Some c" if "view_geocode_location n = Some c"
    using cameroon_locations_sub[of "py_strip (py_lower n)" c] that
    by (simp add: view_geocode_location_def geocode_location_def geocode_in_def)
  show "\<exists>s'. geocoding_step r s = Inr s' \<and> location (art s') = view_geocode_location n"
    if "location (art s) = None \<and> dict_get r ''entities'' (JList []) = JList items \<and>
        location_entities_of items = Inr (first # others) \<and>
        map_of first ''word'' = Some (JStr n)"
    using that by (cases "view_geocode_location n") (simp_all add: geocoding_step_def)
qed

theorem orchestrator_geocoding_exact_witness:
  "view_geocode_location '' Douala '' = Some (pt 4.0511 9.7679) \<and>
   geocode_location '' Douala '' = Some (pt 4.0511 9.7679) \<and>
   location (art fresh_state) = None \<and>
   dict_get douala_response ''entities'' (JList []) = JList [JDict douala_entity] \<and>
   location_entities_of [JDict douala_entity] = Inr [douala_entity] \<and>
   map_of douala_entity ''word'' = Some (JStr ''Douala'') \<and>
   \<not> isl (geocoding_step douala_response fresh_state) \<and>
   location (art (projr (geocoding_step douala_response fresh_state))) =
     view_geocode_location ''Douala''"
proof -
  have h: "view_geocode_location '' Douala '' = Some (pt 4.0511 9.7679)" by code_simp
  have g: "location (art fresh_state) = None"
     "dict_get douala_response ''entities'' (JList []) = JList [JDict douala_entity]"
     "location_entities_of [JDict douala_entity] = Inr [douala_entity]"
     "map_of douala_entity ''word'' = Some (JStr ''Douala'')"
    by code_simp+
  have c: "geocode_location '' Douala '' = Some (pt 4.0511 9.7679)"
    using h orchestrator_geocoding_exact[where n = "'' Douala ''" and c = "pt 4.0511 9.7679"]
    by blast
  have "\<exists>s'. geocoding_step douala_response fresh_state = Inr s' \<and>
             location (art s') = view_geocode_location ''Douala''"
    using g
      orchestrator_geocoding_exact[where n = "''Douala''" and s = fresh_state
        and r = douala_response and items = "[JDict douala_entity]"
        and first = douala_entity and others = "[]"]
    by blast
  then obtain s' where s': "geocoding_step douala_response fresh_state = Inr s'"
      "location (art s') = view_geocode_location ''Douala''"
    by blast
  have p: "\<not> isl (geocoding_step douala_response fresh_state)"
    "location (art (projr (geocoding_step douala_response fresh_state))) =
       view_geocode_location ''Douala''"
    using s' by simp_all
  show ?thesis using h c g p by blast
qed


















theorem orchestrator_language_witness:
  "language (db (fst (process_article_pipeline translation_down ner_down
      (new_article french_text)))) = ''fr''"
proof -
  have "detect_article_language (raw_text (new_article french_text)) = ''fr''" by code_simp
  then show ?thesis
    using orchestrator_language[of _ translation_down ner_down "new_article french_text"]
    by simp
qed

end
